theory Spec2Isabelle
  imports Complex_Main
begin

section \<open>Strings, the season pattern and integer parsing\<close>

text \<open>
  A Python \<open>str\<close> is modelled as a \<open>string\<close>, one \<open>char\<close> per code point, which
  covers the code points below 256. In that range the decimal digits matched by
  \<open>\d\<close> and read by \<open>int()\<close> are the ten ASCII digits.
\<close>

datatype arg_msg =
    Invalid_season_format string  \<comment> \<open>\<open>Invalid season format: '<season>'. Expected format: ...\<close>\<close>
  | Invalid_season string         \<comment> \<open>\<open>Invalid season: '<season>'. Years must be consecutive ...\<close>\<close>

datatype exn =
    ArgumentTypeError arg_msg
  | ValueError
  | IndexError
  | KeyError string
  | ApiException string    \<comment> \<open>any \<open>Exception\<close> raised inside the external API client\<close>
  | WriteException string  \<comment> \<open>any exception raised while writing the output file\<close>

definition is_digit :: "char \<Rightarrow> bool" where
  "is_digit c = (48 \<le> (of_char c :: nat) \<and> (of_char c :: nat) \<le> 57)"

definition digit_val :: "char \<Rightarrow> nat" where
  "digit_val c = (of_char c :: nat) - 48"

definition newline :: char where
  "newline = CHR 0x0A"

text \<open>
  The pattern \<open>^\d{4}-\d{2}$\<close> is a sequence of single-character atoms between the
  two anchors. \<open>re.match\<close> starts at the beginning of the string; without the
  \<open>MULTILINE\<close> flag \<open>$\<close> holds at the end of the string and also just before a
  newline that is the last character of the string.
\<close>

datatype atom = Digit | Lit char

fun atom_matches :: "atom \<Rightarrow> char \<Rightarrow> bool" where
  "atom_matches Digit c = is_digit c"
| "atom_matches (Lit l) c = (c = l)"

fun match_atoms :: "atom list \<Rightarrow> string \<Rightarrow> string option" where
  "match_atoms [] s = Some s"
| "match_atoms (a # as) [] = None"
| "match_atoms (a # as) (c # cs) = (if atom_matches a c then match_atoms as cs else None)"

definition at_dollar :: "string \<Rightarrow> bool" where
  "at_dollar rest = (rest = [] \<or> rest = [newline])"

definition re_match :: "atom list \<Rightarrow> string \<Rightarrow> bool" where
  "re_match pat s = (case match_atoms pat s of None \<Rightarrow> False | Some rest \<Rightarrow> at_dollar rest)"

definition pattern :: "atom list" where
  "pattern = [Digit, Digit, Digit, Digit, Lit CHR ''-'', Digit, Digit]"

text \<open>\<open>str.split(sep)\<close> for a one-character separator: every occurrence splits.\<close>

fun py_split :: "char \<Rightarrow> string \<Rightarrow> string list" where
  "py_split sep [] = [[]]"
| "py_split sep (c # cs) =
     (if c = sep then [] # py_split sep cs
      else (case py_split sep cs of
              [] \<Rightarrow> [[c]]
            | w # ws \<Rightarrow> (c # w) # ws))"

text \<open>List indexing with a non-negative index; out of range raises \<open>IndexError\<close>.\<close>

definition list_get :: "'a list \<Rightarrow> nat \<Rightarrow> exn + 'a" where
  "list_get xs i = (if i < length xs then Inr (xs ! i) else Inl IndexError)"

text \<open>
  \<open>int(s)\<close> in base ten: surrounding whitespace is stripped, one sign is allowed,
  then decimal digits, where single underscores may stand between two digits.
  Anything else raises \<open>ValueError\<close>. The whitespace \<open>int()\<close> strips is tab to
  carriage return (9 to 13), the space, and the two non-ASCII spaces below 256; the
  separators 28 to 31 are not stripped.
\<close>

definition is_space :: "char \<Rightarrow> bool" where
  "is_space c = (let n = (of_char c :: nat) in
     (9 \<le> n \<and> n \<le> 13) \<or> n = 32 \<or> n = 133 \<or> n = 160)"

definition py_strip :: "string \<Rightarrow> string" where
  "py_strip s = rev (dropWhile is_space (rev (dropWhile is_space s)))"

fun int_digits :: "string \<Rightarrow> nat \<Rightarrow> nat option" where
  "int_digits [] acc = Some acc"
| "int_digits [c] acc = (if is_digit c then Some (10 * acc + digit_val c) else None)"
| "int_digits (c # d # ds) acc =
     (if is_digit c then int_digits (d # ds) (10 * acc + digit_val c)
      else if c = CHR ''_'' \<and> is_digit d then int_digits ds (10 * acc + digit_val d)
      else None)"

definition py_int :: "string \<Rightarrow> exn + int" where
  "py_int s =
     (let t = py_strip s;
          neg = (case t of [] \<Rightarrow> False | c # cs \<Rightarrow> c = CHR ''-'');
          body = (case t of [] \<Rightarrow> [] | c # cs \<Rightarrow> if c = CHR ''-'' \<or> c = CHR ''+'' then cs else t)
      in case body of
           [] \<Rightarrow> Inl ValueError
         | c # cs \<Rightarrow>
             if is_digit c
             then (case int_digits cs (digit_val c) of
                     None \<Rightarrow> Inl ValueError
                   | Some n \<Rightarrow> Inr (if neg then - int n else int n))
             else Inl ValueError)"

section \<open>Season Validator\<close>

definition validate_season_format :: "string \<Rightarrow> exn + string" where
  "validate_season_format season =
     (if \<not> re_match pattern season then Inl (ArgumentTypeError (Invalid_season_format season))
      else
        let years = py_split CHR ''-'' season in
        case list_get years 0 of Inl e \<Rightarrow> Inl e | Inr y0 \<Rightarrow>
        case py_int y0 of Inl e \<Rightarrow> Inl e | Inr start_year \<Rightarrow>
        case list_get years 1 of Inl e \<Rightarrow> Inl e | Inr y1 \<Rightarrow>
        case py_int y1 of Inl e \<Rightarrow> Inl e | Inr end_year_short \<Rightarrow>
        let expected_end = start_year mod 100 + 1 in
        if end_year_short \<noteq> expected_end
        then Inl (ArgumentTypeError (Invalid_season season))
        else Inr season)"

section \<open>Data model of the pipeline\<close>

text \<open>
  A row of the roster table and a row of a shot-chart table carry the columns the
  script reads or writes; every other column of a shot-chart row is kept, untouched,
  in \<open>other_columns\<close>. A \<open>dataframe\<close> is a table that has the \<open>SHOT_TYPE\<close> column,
  given as the list of its rows in index order.
\<close>

record roster_row =
  ROSTERSTATUS :: int
  PERSON_ID :: int
  DISPLAY_FIRST_LAST :: string

record player =
  player_id :: int
  player_name :: string

record shot_record =
  SHOT_TYPE :: string
  PLAYER_NAME :: string
  other_columns :: "(string \<times> string) list"

type_synonym dataframe = "shot_record list"

text \<open>
  The table a shot-chart request answers with need not have the \<open>SHOT_TYPE\<close> column.
  Such a table is given by its rows too, each row the list of its columns' names and
  values. \<open>pd.DataFrame()\<close> is the table with no column and no row.
\<close>

type_synonym raw_row = "(string \<times> string) list"

datatype table = Table dataframe | Table_without_SHOT_TYPE "raw_row list"

definition empty_DataFrame :: table where
  "empty_DataFrame = Table_without_SHOT_TYPE []"

text \<open>\<open>.empty\<close>: the table has no row, or it has no column.\<close>

fun table_empty :: "table \<Rightarrow> bool" where
  "table_empty (Table df) = (df = [])"
| "table_empty (Table_without_SHOT_TYPE rows) = list_all (\<lambda>r. r = []) rows"

text \<open>Assigning a value to a column: an existing column keeps its place, a new one comes last.\<close>

fun set_column :: "string \<Rightarrow> string \<Rightarrow> raw_row \<Rightarrow> raw_row" where
  "set_column k v [] = [(k, v)]"
| "set_column k v ((k', v') # r) =
     (if k' = k then (k, v) # r else (k', v') # set_column k v r)"

text \<open>\<open>shots_df['PLAYER_NAME'] = player_name\<close>: the one value in every row.\<close>

fun set_player_name :: "string \<Rightarrow> table \<Rightarrow> table" where
  "set_player_name pname (Table df) = Table (map (\<lambda>r. r\<lparr>PLAYER_NAME := pname\<rparr>) df)"
| "set_player_name pname (Table_without_SHOT_TYPE rows) =
     Table_without_SHOT_TYPE (map (set_column ''PLAYER_NAME'' pname) rows)"

type_synonym path = "string list"  \<comment> \<open>the components of an absolute path\<close>

definition parent :: "path \<Rightarrow> path" where
  "parent p = butlast p"

text \<open>
  What the script prints, one constructor per message, and what it does to the world.
  The progress bar is not recorded. A sleep that takes place is recorded with its
  argument; the literal \<open>0.6\<close> is the rational \<open>6 / 10\<close>.
\<close>

datatype message =
    Fetching_player_list string
  | Found_players nat
  | Fetch_warning string int exn
  | Pipeline_banner string
  | Fetching_shot_data nat
  | Collected nat
  | No_three_pointers
  | Data_saved path
  | Season_banner string
  | Pipeline_complete nat path
  | No_data_to_save
  | Usage_error arg_msg
  | Usage_invalid_value string

datatype event =
    Print message
  | CommonAllPlayers_request string
  | ShotChartDetail_request int string
  | Sleep rat
  | Mkdir path
  | To_parquet path dataframe

text \<open>
  The collaborators of the script: the two endpoints of the statistics service, each
  answering a request with an exception or with its list of data frames, the
  filesystem, and the location of the script file. A request is answered the same way
  throughout one run.
\<close>

record world =
  common_all_players :: "string \<Rightarrow> exn + roster_row list list"
  shot_chart_detail :: "int \<Rightarrow> string \<Rightarrow> exn + table list"
  mkdir_parents :: "path \<Rightarrow> exn option"
  to_parquet :: "path \<Rightarrow> dataframe \<Rightarrow> exn option"
  script_file :: path

datatype outcome = Returned | SystemExit nat | Uncaught exn

section \<open>Player Enumerator\<close>

definition get_player_list :: "world \<Rightarrow> string \<Rightarrow> event list \<times> (exn + player list)" where
  "get_player_list w season =
     (let request = [Print (Fetching_player_list season), CommonAllPlayers_request season] in
      case common_all_players w season of
        Inl e \<Rightarrow> (request, Inl e)
      | Inr frames \<Rightarrow>
          (case list_get frames 0 of
             Inl e \<Rightarrow> (request, Inl e)
           | Inr players_data \<Rightarrow>
               let active_players = filter (\<lambda>row. ROSTERSTATUS row = 1) players_data;
                   player_list = map (\<lambda>row. \<lparr>player_id = PERSON_ID row,
                                              player_name = DISPLAY_FIRST_LAST row\<rparr>)
                                     active_players
               in (request @ [Print (Found_players (length player_list))], Inr player_list)))"

section \<open>Shot Fetcher\<close>

text \<open>
  The whole body is inside \<open>try\<close>, and \<open>except Exception\<close> turns every failure of the
  request, and of taking the first data frame, into a warning and an empty table.
  Interrupts, which are not an \<open>Exception\<close>, are not modelled.
\<close>

definition get_player_shots :: "world \<Rightarrow> int \<Rightarrow> string \<Rightarrow> string \<Rightarrow> event list \<times> table" where
  "get_player_shots w pid pname season =
     (let request = [ShotChartDetail_request pid season] in
      case shot_chart_detail w pid season of
        Inl e \<Rightarrow> (request @ [Print (Fetch_warning pname pid e)], empty_DataFrame)
      | Inr frames \<Rightarrow>
          (case list_get frames 0 of
             Inl e \<Rightarrow> (request @ [Print (Fetch_warning pname pid e)], empty_DataFrame)
           | Inr shots_df \<Rightarrow>
               (request,
                if \<not> table_empty shots_df then set_player_name pname shots_df
                else shots_df)))"

section \<open>Filter and Aggregator\<close>

text \<open>
  \<open>shots_df[shots_df['SHOT_TYPE'] == '3PT Field Goal']\<close>: reading the column raises
  \<open>KeyError\<close> on a table without it; on a table with it, the rows where the comparison
  holds are kept, in their order.
\<close>

definition three_pointers :: "dataframe \<Rightarrow> dataframe" where
  "three_pointers shots_df = filter (\<lambda>r. SHOT_TYPE r = ''3PT Field Goal'') shots_df"

fun select_three_pointers :: "table \<Rightarrow> exn + dataframe" where
  "select_three_pointers (Table shots_df) = Inr (three_pointers shots_df)"
| "select_three_pointers (Table_without_SHOT_TYPE rows) = Inl (KeyError ''SHOT_TYPE'')"

text \<open>\<open>time.sleep(secs)\<close> raises \<open>ValueError\<close> for a negative argument.\<close>

definition time_sleep :: "rat \<Rightarrow> exn + event list" where
  "time_sleep secs = (if secs < 0 then Inl ValueError else Inr [Sleep secs])"

text \<open>
  The loop over the player list: \<open>acc\<close> is \<open>all_three_pointers\<close>. The filter is not
  inside any \<open>try\<close>, and the sleep comes last in every iteration: an exception of
  either leaves the loop and the function.
\<close>

fun fetch_loop ::
  "world \<Rightarrow> string \<Rightarrow> rat \<Rightarrow> player list \<Rightarrow> dataframe list
     \<Rightarrow> event list \<times> (exn + dataframe list)" where
  "fetch_loop w season rate_limit_seconds [] acc = ([], Inr acc)"
| "fetch_loop w season rate_limit_seconds (p # ps) acc =
     (let (ev, shots_df) = get_player_shots w (player_id p) (player_name p) season;
          filtered = (if \<not> table_empty shots_df
                      then (case select_three_pointers shots_df of
                              Inl e \<Rightarrow> Inl e
                            | Inr three_pointers_df \<Rightarrow>
                                Inr (if three_pointers_df \<noteq> []
                                     then acc @ [three_pointers_df] else acc))
                      else Inr acc)
      in case filtered of
           Inl e \<Rightarrow> (ev, Inl e)
         | Inr acc' \<Rightarrow>
             (case time_sleep rate_limit_seconds of
                Inl e \<Rightarrow> (ev, Inl e)
              | Inr slept \<Rightarrow>
                  (let (ev', result) = fetch_loop w season rate_limit_seconds ps acc'
                   in (ev @ slept @ ev', result))))"

text \<open>
  The aggregated table is made of rows of tables that have the \<open>SHOT_TYPE\<close> column,
  and is given by its rows; \<open>pd.DataFrame()\<close> is returned as the table with no row.
\<close>

definition fetch_three_point_data ::
  "world \<Rightarrow> string \<Rightarrow> rat \<Rightarrow> event list \<times> (exn + dataframe)" where
  "fetch_three_point_data w season rate_limit_seconds =
     (let (ev, r) = get_player_list w season in
      case r of
        Inl e \<Rightarrow> (Print (Pipeline_banner season) # ev, Inl e)
      | Inr player_list \<Rightarrow>
          let (ev', looped) = fetch_loop w season rate_limit_seconds player_list [];
              before = Print (Pipeline_banner season) # ev
                       @ [Print (Fetching_shot_data (length player_list))] @ ev'
          in case looped of
               Inl e \<Rightarrow> (before, Inl e)
             | Inr all_three_pointers \<Rightarrow>
                 if all_three_pointers \<noteq> []
                 then (let combined_df = concat all_three_pointers
                       in (before @ [Print (Collected (length combined_df))], Inr combined_df))
                 else (before @ [Print No_three_pointers], Inr []))"

definition default_rate_limit_seconds :: rat where
  "default_rate_limit_seconds = 6 / 10"

section \<open>Writer\<close>

definition save_to_parquet :: "world \<Rightarrow> dataframe \<Rightarrow> path \<Rightarrow> event list \<times> (exn + unit)" where
  "save_to_parquet w df output_path =
     (case mkdir_parents w (parent output_path) of
        Some e \<Rightarrow> ([Mkdir (parent output_path)], Inl e)
      | None \<Rightarrow>
          (case to_parquet w output_path df of
             Some e \<Rightarrow> ([Mkdir (parent output_path), To_parquet output_path df], Inl e)
           | None \<Rightarrow>
               ([Mkdir (parent output_path), To_parquet output_path df,
                 Print (Data_saved output_path)], Inr ())))"

section \<open>Pipeline Driver\<close>

text \<open>
  The command line is reduced to the value given to \<open>--season\<close>, if any. The parser
  applies \<open>validate_season_format\<close> to the value, and to the default when the flag is
  absent; an \<open>ArgumentTypeError\<close> or \<open>ValueError\<close> of the validator becomes a usage
  message and exit status 2, any other exception leaves the parser.
\<close>

definition parse_arguments :: "string option \<Rightarrow> event list \<times> (outcome + string)" where
  "parse_arguments arg =
     (let given = (case arg of None \<Rightarrow> ''2024-25'' | Some s \<Rightarrow> s) in
      case validate_season_format given of
        Inr season \<Rightarrow> ([], Inr season)
      | Inl (ArgumentTypeError m) \<Rightarrow> ([Print (Usage_error m)], Inl (SystemExit 2))
      | Inl ValueError \<Rightarrow> ([Print (Usage_invalid_value given)], Inl (SystemExit 2))
      | Inl e \<Rightarrow> ([], Inl (Uncaught e)))"

text \<open>\<open>str.replace(old, new)\<close> for one-character \<open>old\<close> and \<open>new\<close>: every occurrence.\<close>

definition py_replace :: "char \<Rightarrow> char \<Rightarrow> string \<Rightarrow> string" where
  "py_replace old new s = map (\<lambda>c. if c = old then new else c) s"

definition output_path_for :: "world \<Rightarrow> string \<Rightarrow> path" where
  "output_path_for w season =
     (let season_filename = py_replace CHR ''-'' CHR ''_'' season
      in parent (parent (script_file w))
         @ [''data'', ''raw'', ''nba_3pt_'' @ season_filename @ ''.parquet''])"

definition main :: "world \<Rightarrow> string option \<Rightarrow> event list \<times> outcome" where
  "main w arg =
     (case parse_arguments arg of
        (ev0, Inl out) \<Rightarrow> (ev0, out)
      | (ev0, Inr season) \<Rightarrow>
          let output_path = output_path_for w season;
              (ev1, r) = fetch_three_point_data w season default_rate_limit_seconds;
              before = ev0 @ [Print (Season_banner season)] @ ev1
          in case r of
               Inl e \<Rightarrow> (before, Uncaught e)
             | Inr three_point_df \<Rightarrow>
                 if three_point_df \<noteq> []
                 then (case save_to_parquet w three_point_df output_path of
                         (ev2, Inl e) \<Rightarrow> (before @ ev2, Uncaught e)
                       | (ev2, Inr u) \<Rightarrow>
                           (before @ ev2
                            @ [Print (Pipeline_complete (length three_point_df) output_path)],
                            Returned))
                 else (before @ [Print No_data_to_save], Returned))"

section \<open>Notions used in the statements\<close>

text \<open>
  The format the validator is documented to check, \<open>YYYY-YY\<close>: four digits, a hyphen,
  two digits, and nothing else; and the value of a string of decimal digits.
\<close>

definition season_shape :: "string \<Rightarrow> bool" where
  "season_shape s = (length s = 7 \<and> list_all is_digit (take 4 s) \<and> s ! 4 = CHR ''-''
                      \<and> list_all is_digit (drop 5 s))"

definition decimal :: "string \<Rightarrow> nat" where
  "decimal s = foldl (\<lambda>n c. 10 * n + digit_val c) 0 s"

text \<open>The table the shot-chart endpoint answers with, when it answers with one.\<close>

definition api_table :: "world \<Rightarrow> int \<Rightarrow> string \<Rightarrow> table" where
  "api_table w pid season =
     (case shot_chart_detail w pid season of
        Inl e \<Rightarrow> empty_DataFrame
      | Inr frames \<Rightarrow> (case frames of [] \<Rightarrow> empty_DataFrame | df # rest \<Rightarrow> df))"

text \<open>The per-player fetch fails: the request raises, or its answer holds no data frame.\<close>

definition fetch_fails :: "world \<Rightarrow> int \<Rightarrow> string \<Rightarrow> bool" where
  "fetch_fails w pid season =
     (case shot_chart_detail w pid season of Inl e \<Rightarrow> True | Inr frames \<Rightarrow> frames = [])"

text \<open>The rows of a table that has the \<open>SHOT_TYPE\<close> column, and those of one that has not.\<close>

fun shot_rows :: "table \<Rightarrow> dataframe" where
  "shot_rows (Table df) = df"
| "shot_rows (Table_without_SHOT_TYPE rows) = []"

fun raw_rows :: "table \<Rightarrow> raw_row list" where
  "raw_rows (Table df) = []"
| "raw_rows (Table_without_SHOT_TYPE rows) = rows"

text \<open>The filter can be applied to a table, or is not applied because the table is empty.\<close>

fun filterable :: "table \<Rightarrow> bool" where
  "filterable (Table df) = True"
| "filterable (Table_without_SHOT_TYPE rows) = list_all (\<lambda>r. r = []) rows"

text \<open>The rows one player contributes: the three-point rows of the table fetched for them.\<close>

definition player_three_pointers :: "world \<Rightarrow> string \<Rightarrow> player \<Rightarrow> dataframe" where
  "player_three_pointers w season p =
     three_pointers (shot_rows (snd (get_player_shots w (player_id p) (player_name p) season)))"

fun is_network :: "event \<Rightarrow> bool" where
  "is_network (CommonAllPlayers_request s) = True"
| "is_network (ShotChartDetail_request i s) = True"
| "is_network e = False"

fun is_write :: "event \<Rightarrow> bool" where
  "is_write (Mkdir p) = True"
| "is_write (To_parquet p df) = True"
| "is_write e = False"



subsection \<open>Sample collaborators\<close>

definition three_row :: shot_record where
  "three_row = \<lparr>SHOT_TYPE = ''3PT Field Goal'', PLAYER_NAME = ''from api'', other_columns = [(''LOC_X'', ''231'')]\<rparr>"

definition two_row :: shot_record where
  "two_row = \<lparr>SHOT_TYPE = ''2PT Field Goal'', PLAYER_NAME = ''from api'', other_columns = [(''LOC_X'', ''12'')]\<rparr>"

definition player_A :: player where
  "player_A = \<lparr>player_id = 1, player_name = ''A''\<rparr>"

definition player_B :: player where
  "player_B = \<lparr>player_id = 2, player_name = ''B''\<rparr>"

definition roster_AB :: "roster_row list" where
  "roster_AB = [\<lparr>ROSTERSTATUS = 1, PERSON_ID = 1, DISPLAY_FIRST_LAST = ''A''\<rparr>,
                \<lparr>ROSTERSTATUS = 0, PERSON_ID = 7, DISPLAY_FIRST_LAST = ''retired''\<rparr>,
                \<lparr>ROSTERSTATUS = 1, PERSON_ID = 2, DISPLAY_FIRST_LAST = ''B''\<rparr>]"

text \<open>A's fetch returns a two-point and a three-point row, B's fetch raises.\<close>

definition world_B_fails :: world where
  "world_B_fails =
     \<lparr>common_all_players = (\<lambda>season. Inr [roster_AB]),
      shot_chart_detail = (\<lambda>pid season. if pid = 1 then Inr [Table [two_row, three_row]]
                                          else Inl (ApiException ''timeout'')),
      mkdir_parents = (\<lambda>p. None),
      to_parquet = (\<lambda>p df. None),
      script_file = [''home'', ''repo'', ''scripts'', ''fetch_data.py'']\<rparr>"

text \<open>A's fetch returns only a two-point row, B's fetch returns a three-point row.\<close>

definition world_A_none :: world where
  "world_A_none =
     \<lparr>common_all_players = (\<lambda>season. Inr [roster_AB]),
      shot_chart_detail = (\<lambda>pid season. if pid = 1 then Inr [Table [two_row]] else Inr [Table [three_row]]),
      mkdir_parents = (\<lambda>p. None),
      to_parquet = (\<lambda>p df. None),
      script_file = [''home'', ''repo'', ''scripts'', ''fetch_data.py'']\<rparr>"

text \<open>Both fetches return one three-point row.\<close>

definition world_both :: world where
  "world_both =
     \<lparr>common_all_players = (\<lambda>season. Inr [roster_AB]),
      shot_chart_detail = (\<lambda>pid season. Inr [Table [three_row]]),
      mkdir_parents = (\<lambda>p. None),
      to_parquet = (\<lambda>p df. None),
      script_file = [''home'', ''repo'', ''scripts'', ''fetch_data.py'']\<rparr>"

text \<open>No fetch returns a three-point row.\<close>

definition world_no_threes :: world where
  "world_no_threes =
     \<lparr>common_all_players = (\<lambda>season. Inr [roster_AB]),
      shot_chart_detail = (\<lambda>pid season. if pid = 1 then Inr [Table [two_row]] else Inr [Table []]),
      mkdir_parents = (\<lambda>p. None),
      to_parquet = (\<lambda>p df. None),
      script_file = [''home'', ''repo'', ''scripts'', ''fetch_data.py'']\<rparr>"

text \<open>A's fetch returns a one-row table that has no \<open>SHOT_TYPE\<close> column.\<close>

definition world_no_column :: world where
  "world_no_column =
     \<lparr>common_all_players = (\<lambda>season. Inr [roster_AB]),
      shot_chart_detail = (\<lambda>pid season. if pid = 1
                                          then Inr [Table_without_SHOT_TYPE [[(''LOC_X'', ''231'')]]]
                                          else Inr [Table [three_row]]),
      mkdir_parents = (\<lambda>p. None),
      to_parquet = (\<lambda>p df. None),
      script_file = [''home'', ''repo'', ''scripts'', ''fetch_data.py'']\<rparr>"

section \<open>The Season Validator on well-formed and ill-formed strings\<close>

lemma is_digit_not_hyphen: "is_digit c \<Longrightarrow> c \<noteq> CHR ''-''"
  by (auto simp: is_digit_def)

lemma is_digit_not_sign: "is_digit c \<Longrightarrow> c \<noteq> CHR ''+''"
  by (auto simp: is_digit_def)

lemma is_digit_not_newline: "is_digit c \<Longrightarrow> c \<noteq> newline"
  by (auto simp: is_digit_def newline_def)

lemma is_digit_not_space: "is_digit c \<Longrightarrow> \<not> is_space c"
  by (auto simp: is_digit_def is_space_def Let_def)

lemma is_space_newline: "is_space newline"
  by (simp add: is_space_def newline_def)

lemma season_shape_cases:
  "season_shape s \<longleftrightarrow> (\<exists>a b c d e f. s = [a, b, c, d, CHR ''-'', e, f] \<and> is_digit a \<and> is_digit b
      \<and> is_digit c \<and> is_digit d \<and> is_digit e \<and> is_digit f)"
proof
  assume h: "season_shape s"
  then have len: "length s = 7" by (simp add: season_shape_def)
  then obtain a b c d h' e f where s: "s = [a, b, c, d, h', e, f]"
    by (auto simp: length_Suc_conv eval_nat_numeral)
  with h show "\<exists>a b c d e f. s = [a, b, c, d, CHR ''-'', e, f] \<and> is_digit a \<and> is_digit b
      \<and> is_digit c \<and> is_digit d \<and> is_digit e \<and> is_digit f"
    by (simp add: season_shape_def eval_nat_numeral)
next
  assume "\<exists>a b c d e f. s = [a, b, c, d, CHR ''-'', e, f] \<and> is_digit a \<and> is_digit b
      \<and> is_digit c \<and> is_digit d \<and> is_digit e \<and> is_digit f"
  then show "season_shape s"
    by (auto simp: season_shape_def eval_nat_numeral)
qed

lemma match_atoms_Cons:
  "match_atoms (a # as) s = Some rest \<longleftrightarrow>
     (\<exists>c cs. s = c # cs \<and> atom_matches a c \<and> match_atoms as cs = Some rest)"
  by (cases s) auto

lemma match_atoms_pattern:
  "match_atoms pattern s = Some rest \<longleftrightarrow> (\<exists>t. season_shape t \<and> s = t @ rest)"
  unfolding pattern_def season_shape_cases match_atoms_Cons
  by auto

lemma re_match_pattern_iff:
  "re_match pattern s \<longleftrightarrow> (\<exists>t. season_shape t \<and> (s = t \<or> s = t @ [newline]))"
proof
  assume "re_match pattern s"
  then obtain rest where r: "match_atoms pattern s = Some rest" and d: "at_dollar rest"
    by (auto simp: re_match_def split: option.splits)
  from r obtain t where "season_shape t" "s = t @ rest"
    by (auto simp: match_atoms_pattern)
  with d show "\<exists>t. season_shape t \<and> (s = t \<or> s = t @ [newline])"
    by (auto simp: at_dollar_def)
next
  assume "\<exists>t. season_shape t \<and> (s = t \<or> s = t @ [newline])"
  then obtain t where t: "season_shape t" and "s = t @ [] \<or> s = t @ [newline]"
    by auto
  then obtain rest where "s = t @ rest" and d: "at_dollar rest"
    by (auto simp: at_dollar_def)
  with t have "match_atoms pattern s = Some rest"
    by (auto simp: match_atoms_pattern)
  with d show "re_match pattern s"
    by (simp add: re_match_def)
qed

lemma py_split_shape:
  assumes "is_digit a" "is_digit b" "is_digit c" "is_digit d" "is_digit e" "is_digit f"
  shows "py_split CHR ''-'' ([a, b, c, d, CHR ''-'', e, f] @ r) =
           (case py_split CHR ''-'' r of [] \<Rightarrow> [[a, b, c, d], [e, f]] | w # ws \<Rightarrow> [a, b, c, d] # (e # f # w) # ws)"
  using assms by (auto dest: is_digit_not_hyphen split: list.splits)

lemma py_int_year:
  assumes "is_digit a" "is_digit b" "is_digit c" "is_digit d"
  shows "py_int [a, b, c, d] = Inr (int (decimal [a, b, c, d]))"
  using assms
  by (auto simp: py_int_def py_strip_def decimal_def Let_def dest: is_digit_not_space is_digit_not_hyphen is_digit_not_sign)

lemma py_int_short:
  assumes "is_digit e" "is_digit f"
  shows "py_int [e, f] = Inr (int (decimal [e, f]))"
    and "py_int [e, f, newline] = Inr (int (decimal [e, f]))"
  using assms
  by (auto simp: py_int_def py_strip_def decimal_def Let_def is_space_newline dest: is_digit_not_space is_digit_not_hyphen is_digit_not_sign)

lemma validate_shape:
  assumes "season_shape s"
  shows "validate_season_format s =
    (if int (decimal (drop 5 s)) = int (decimal (take 4 s)) mod 100 + 1 then Inr s
     else Inl (ArgumentTypeError (Invalid_season s)))"
proof -
  from assms obtain a b c d e f where s: "s = [a, b, c, d, CHR ''-'', e, f]"
    and dg: "is_digit a" "is_digit b" "is_digit c" "is_digit d" "is_digit e" "is_digit f"
    unfolding season_shape_cases by blast
  have m: "re_match pattern s" using assms by (auto simp: re_match_pattern_iff)
  have sp: "py_split CHR ''-'' s = [[a, b, c, d], [e, f]]"
    using py_split_shape[OF dg, of "[]"] by (simp add: s)
  show ?thesis
    unfolding validate_season_format_def
    using m py_int_year[OF dg(1-4)] py_int_short(1)[OF dg(5,6)]
    by (simp add: sp list_get_def Let_def) (simp add: s)
qed

lemma validate_shape_newline:
  assumes "season_shape s"
  shows "validate_season_format (s @ [newline]) =
    (if int (decimal (drop 5 s)) = int (decimal (take 4 s)) mod 100 + 1 then Inr (s @ [newline])
     else Inl (ArgumentTypeError (Invalid_season (s @ [newline]))))"
proof -
  from assms obtain a b c d e f where s: "s = [a, b, c, d, CHR ''-'', e, f]"
    and dg: "is_digit a" "is_digit b" "is_digit c" "is_digit d" "is_digit e" "is_digit f"
    unfolding season_shape_cases by blast
  have m: "re_match pattern (s @ [newline])" using assms by (auto simp: re_match_pattern_iff)
  have nl: "newline \<noteq> CHR ''-''" by (simp add: newline_def)
  have sp: "py_split CHR ''-'' (s @ [newline]) = [[a, b, c, d], [e, f, newline]]"
    using py_split_shape[OF dg, of "[newline]"] nl by (simp add: s)
  show ?thesis
    unfolding validate_season_format_def
    using m py_int_year[OF dg(1-4)] py_int_short(2)[OF dg(5,6)]
    by (simp add: sp list_get_def Let_def) (simp add: s)
qed

lemma validate_no_match:
  "\<not> re_match pattern s \<Longrightarrow> validate_season_format s = Inl (ArgumentTypeError (Invalid_season_format s))"
  by (simp add: validate_season_format_def)

lemma validate_rejects_with_usage_error:
  assumes "validate_season_format s = Inl e"
  shows "\<exists>m. e = ArgumentTypeError m"
proof (cases "re_match pattern s")
  case False
  with assms show ?thesis by (auto simp: validate_no_match)
next
  case True
  then obtain t where t: "season_shape t" and c: "s = t \<or> s = t @ [newline]"
    by (auto simp: re_match_pattern_iff)
  from c show ?thesis
  proof
    assume "s = t"
    with assms validate_shape[OF t] show ?thesis by (auto split: if_splits)
  next
    assume "s = t @ [newline]"
    with assms validate_shape_newline[OF t] show ?thesis by (auto split: if_splits)
  qed
qed

lemma validate_accepts_unchanged:
  assumes "validate_season_format s = Inr s'"
  shows "s' = s \<and> (\<exists>t. season_shape t \<and> (s = t \<or> s = t @ [newline]))"
proof -
  have m: "re_match pattern s"
    using assms by (auto simp: validate_season_format_def split: if_splits)
  then obtain t where t: "season_shape t" and c: "s = t \<or> s = t @ [newline]"
    by (auto simp: re_match_pattern_iff)
  from c have "s' = s"
  proof
    assume "s = t"
    with assms validate_shape[OF t] show ?thesis by (auto split: if_splits)
  next
    assume "s = t @ [newline]"
    with assms validate_shape_newline[OF t] show ?thesis by (auto split: if_splits)
  qed
  with t c show ?thesis by blast
qed

text \<open>No two-digit suffix equals 100: every season whose first year ends in 99 is rejected.\<close>

lemma digit_val_le_9: "is_digit c \<Longrightarrow> digit_val c \<le> 9"
  by (auto simp: is_digit_def digit_val_def)

lemma century_end_rejected:
  assumes "season_shape s" and "decimal (take 4 s) mod 100 = 99"
  shows "validate_season_format s = Inl (ArgumentTypeError (Invalid_season s))"
proof -
  from assms(1) obtain a b c d e f where s: "s = [a, b, c, d, CHR ''-'', e, f]"
    and dg: "is_digit e" "is_digit f"
    unfolding season_shape_cases by blast
  have "decimal (drop 5 s) = 10 * digit_val e + digit_val f"
    by (simp add: s decimal_def)
  with digit_val_le_9[OF dg(1)] digit_val_le_9[OF dg(2)]
  have "decimal (drop 5 s) < 100" by simp
  moreover have "int (decimal (take 4 s)) mod 100 = int (decimal (take 4 s) mod 100)"
    by (simp add: zmod_int)
  then have "int (decimal (take 4 s)) mod 100 + 1 = 100"
    by (simp add: assms(2))
  ultimately have "int (decimal (drop 5 s)) \<noteq> int (decimal (take 4 s)) mod 100 + 1"
    by simp
  then show ?thesis
    by (simp add: validate_shape[OF assms(1)])
qed

section \<open>The fetch loop in closed form\<close>

lemma table_empty_empty_DataFrame: "table_empty empty_DataFrame"
  by (simp add: empty_DataFrame_def)

lemma shot_rows_empty_DataFrame: "shot_rows empty_DataFrame = []"
  by (simp add: empty_DataFrame_def)

lemma filterable_empty_DataFrame: "filterable empty_DataFrame"
  by (simp add: empty_DataFrame_def)

lemma shot_rows_set_player_name:
  "shot_rows (set_player_name n t) = map (\<lambda>r. r\<lparr>PLAYER_NAME := n\<rparr>) (shot_rows t)"
  by (cases t) simp_all

lemma filterable_set_player_name:
  "filterable t \<Longrightarrow> \<not> table_empty t \<Longrightarrow> filterable (set_player_name n t)"
  by (cases t) auto

lemma filterable_iff: "filterable t \<longleftrightarrow> table_empty t \<or> (\<exists>df. t = Table df)"
  by (cases t) auto

lemma table_empty_shot_rows: "table_empty t \<Longrightarrow> shot_rows t = []"
  by (cases t) auto

lemma get_player_shots_table:
  "snd (get_player_shots w pid pname season) =
     (if table_empty (api_table w pid season) then api_table w pid season
      else set_player_name pname (api_table w pid season))"
  by (auto simp: get_player_shots_def api_table_def list_get_def Let_def
        table_empty_empty_DataFrame split: sum.splits list.splits)

lemma get_player_shots_rows:
  "shot_rows (snd (get_player_shots w pid pname season)) =
     map (\<lambda>r. r\<lparr>PLAYER_NAME := pname\<rparr>) (shot_rows (api_table w pid season))"
  by (simp add: get_player_shots_table shot_rows_set_player_name table_empty_shot_rows)

lemma get_player_shots_filterable:
  "filterable (api_table w pid season) \<Longrightarrow> filterable (snd (get_player_shots w pid pname season))"
  by (simp add: get_player_shots_table filterable_set_player_name)

lemma get_player_shots_events:
  "fst (get_player_shots w pid pname season) =
     ShotChartDetail_request pid season #
       (case shot_chart_detail w pid season of
          Inl e \<Rightarrow> [Print (Fetch_warning pname pid e)]
        | Inr frames \<Rightarrow> if frames = [] then [Print (Fetch_warning pname pid IndexError)] else [])"
  by (auto simp: get_player_shots_def list_get_def Let_def split: sum.splits)

lemma three_pointers_tag:
  "three_pointers (map (\<lambda>r. r\<lparr>PLAYER_NAME := n\<rparr>) df) = map (\<lambda>r. r\<lparr>PLAYER_NAME := n\<rparr>) (three_pointers df)"
  by (induction df) (auto simp: three_pointers_def)

lemma player_three_pointers_api:
  "player_three_pointers w season p =
     map (\<lambda>r. r\<lparr>PLAYER_NAME := player_name p\<rparr>)
         (three_pointers (shot_rows (api_table w (player_id p) season)))"
  by (simp add: player_three_pointers_def get_player_shots_rows three_pointers_tag)

text \<open>One iteration of the loop, up to the sleep.\<close>

lemma filtered_filterable:
  assumes "filterable t"
  shows "(if \<not> table_empty t
          then (case select_three_pointers t of
                  Inl e \<Rightarrow> Inl e
                | Inr three_pointers_df \<Rightarrow>
                    Inr (if three_pointers_df \<noteq> [] then acc @ [three_pointers_df] else acc))
          else Inr acc)
         = Inr (acc @ filter (\<lambda>df. df \<noteq> []) [three_pointers (shot_rows t)])"
  using assms by (cases t) (auto simp: three_pointers_def)

lemma filtered_Inr:
  assumes "(if \<not> table_empty t
          then (case select_three_pointers t of
                  Inl e \<Rightarrow> Inl e
                | Inr three_pointers_df \<Rightarrow>
                    Inr (if three_pointers_df \<noteq> [] then acc @ [three_pointers_df] else acc))
          else Inr acc) = Inr acc'"
  shows "acc' = acc @ filter (\<lambda>df. df \<noteq> []) [three_pointers (shot_rows t)]"
  using assms by (cases t) (auto simp: three_pointers_def list_all_iff split: if_splits)

lemma fetch_loop_total:
  assumes "0 \<le> d" and "\<forall>p \<in> set ps. filterable (api_table w (player_id p) season)"
  shows "fetch_loop w season d ps acc =
           (concat (map (\<lambda>p. fst (get_player_shots w (player_id p) (player_name p) season)
                              @ [Sleep d]) ps),
            Inr (acc @ filter (\<lambda>df. df \<noteq> []) (map (player_three_pointers w season) ps)))"
  using assms(2)
proof (induction ps arbitrary: acc)
  case Nil
  show ?case by simp
next
  case (Cons p ps)
  have f: "filterable (snd (get_player_shots w (player_id p) (player_name p) season))"
    using Cons.prems by (simp add: get_player_shots_filterable)
  have rest: "\<forall>p \<in> set ps. filterable (api_table w (player_id p) season)"
    using Cons.prems by simp
  show ?case
    using assms(1)
    by (simp add: case_prod_beta Let_def filtered_filterable[OF f] time_sleep_def
          Cons.IH[OF rest] player_three_pointers_def)
qed

lemma fetch_loop_Inr:
  assumes "snd (fetch_loop w season d ps acc) = Inr result"
  shows "result = acc @ filter (\<lambda>df. df \<noteq> []) (map (player_three_pointers w season) ps)"
  using assms
proof (induction ps arbitrary: acc)
  case Nil
  then show ?case by simp
next
  case (Cons p ps)
  let ?t = "snd (get_player_shots w (player_id p) (player_name p) season)"
  let ?filtered = "(if \<not> table_empty ?t
          then (case select_three_pointers ?t of
                  Inl e \<Rightarrow> Inl e
                | Inr three_pointers_df \<Rightarrow>
                    Inr (if three_pointers_df \<noteq> [] then acc @ [three_pointers_df] else acc))
          else Inr acc)"
  from Cons.prems obtain acc' where a: "?filtered = Inr acc'"
    by (cases ?filtered) (auto simp: case_prod_beta Let_def)
  from Cons.prems a have "snd (fetch_loop w season d ps acc') = Inr result"
    by (auto simp: case_prod_beta Let_def split: sum.splits)
  then have "result = acc' @ filter (\<lambda>df. df \<noteq> []) (map (player_three_pointers w season) ps)"
    by (rule Cons.IH)
  moreover have "acc' = acc @ filter (\<lambda>df. df \<noteq> []) [player_three_pointers w season p]"
    using filtered_Inr[OF a] by (simp only: player_three_pointers_def)
  ultimately show ?case
    by simp
qed

lemma fetch_loop_no_write: "filter is_write (fst (fetch_loop w season d ps acc)) = []"
proof (induction ps arbitrary: acc)
  case Nil
  show ?case by simp
next
  case (Cons p ps)
  have g: "filter is_write (fst (get_player_shots w (player_id p) (player_name p) season)) = []"
    by (auto simp: get_player_shots_events split: sum.splits)
  show ?case
    using g by (auto simp: case_prod_beta Let_def time_sleep_def Cons.IH split: sum.splits)
qed

lemma fetch_loop_skip:
  assumes "0 \<le> d"
    and "table_empty (snd (get_player_shots w (player_id p) (player_name p) season))"
  shows "snd (fetch_loop w season d (ps @ p # qs) acc) = snd (fetch_loop w season d (ps @ qs) acc)"
proof (induction ps arbitrary: acc)
  case Nil
  show ?case
    using assms by (simp add: case_prod_beta Let_def time_sleep_def)
next
  case (Cons a ps)
  show ?case
    by (simp add: case_prod_beta Let_def Cons.IH split: sum.splits)
qed

lemma fetch_fails_empty:
  assumes "fetch_fails w pid season"
  shows "snd (get_player_shots w pid pname season) = empty_DataFrame"
  using assms
  by (auto simp: fetch_fails_def get_player_shots_def list_get_def Let_def split: sum.splits)

section \<open>The traces of the collection and of the driver\<close>

lemma concat_filter_nonempty: "concat (filter (\<lambda>xs. xs \<noteq> []) xss) = concat xss"
  by (induction xss) auto

lemma fetch_three_point_data_Inr:
  assumes "snd (get_player_list w season) = Inr ps"
    and "snd (fetch_three_point_data w season d) = Inr aggregated"
  shows "aggregated = concat (map (player_three_pointers w season) ps)"
proof -
  obtain ev where g: "get_player_list w season = (ev, Inr ps)"
    using assms(1) by (cases "get_player_list w season") simp
  obtain ev' looped where l: "fetch_loop w season d ps [] = (ev', looped)"
    by (cases "fetch_loop w season d ps []")
  from assms(2) obtain all where a: "looped = Inr all"
    by (cases looped) (auto simp: fetch_three_point_data_def g l)
  have "all = filter (\<lambda>df. df \<noteq> []) (map (player_three_pointers w season) ps)"
    using fetch_loop_Inr[of w season d ps "[]" all] l a by simp
  then have c: "concat all = concat (map (player_three_pointers w season) ps)"
    by (simp add: concat_filter_nonempty)
  show ?thesis
  proof (cases "all = []")
    case True
    with c assms(2) show ?thesis by (simp add: fetch_three_point_data_def g l a)
  next
    case False
    with c assms(2) show ?thesis by (simp add: fetch_three_point_data_def g l a Let_def)
  qed
qed

lemma fetch_three_point_data_failed:
  assumes "snd (get_player_list w season) = Inl e"
  shows "fetch_three_point_data w season d =
           (Print (Pipeline_banner season) # fst (get_player_list w season), Inl e)"
  using assms by (cases "get_player_list w season") (simp add: fetch_three_point_data_def)

lemma fetch_three_point_data_total:
  assumes "snd (get_player_list w season) = Inr ps"
    and "0 \<le> d"
    and "\<forall>p \<in> set ps. filterable (api_table w (player_id p) season)"
  shows "fetch_three_point_data w season d =
           (Print (Pipeline_banner season) # fst (get_player_list w season)
            @ [Print (Fetching_shot_data (length ps))]
            @ concat (map (\<lambda>p. fst (get_player_shots w (player_id p) (player_name p) season)
                                @ [Sleep d]) ps)
            @ [Print (if concat (map (player_three_pointers w season) ps) = [] then No_three_pointers
                      else Collected (length (concat (map (player_three_pointers w season) ps))))],
            Inr (concat (map (player_three_pointers w season) ps)))"
proof -
  obtain ev where g: "get_player_list w season = (ev, Inr ps)"
    using assms(1) by (cases "get_player_list w season") simp
  define all where "all = filter (\<lambda>df. df \<noteq> []) (map (player_three_pointers w season) ps)"
  have l: "fetch_loop w season d ps [] =
             (concat (map (\<lambda>p. fst (get_player_shots w (player_id p) (player_name p) season)
                                @ [Sleep d]) ps), Inr all)"
    unfolding all_def using fetch_loop_total[OF assms(2,3), of "[]"] by simp
  have c: "concat all = concat (map (player_three_pointers w season) ps)"
    unfolding all_def by (simp add: concat_filter_nonempty)
  have n: "all = [] \<longleftrightarrow> concat (map (player_three_pointers w season) ps) = []"
    unfolding all_def by (auto simp: filter_empty_conv)
  show ?thesis
  proof (cases "all = []")
    case True
    with n show ?thesis by (simp add: fetch_three_point_data_def g l)
  next
    case False
    with n c show ?thesis by (simp add: fetch_three_point_data_def g l Let_def)
  qed
qed

lemma fetch_three_point_data_result:
  assumes "snd (get_player_list w season) = Inr ps"
    and "0 \<le> d"
    and "\<forall>p \<in> set ps. filterable (api_table w (player_id p) season)"
  shows "snd (fetch_three_point_data w season d) =
           Inr (concat (map (player_three_pointers w season) ps))"
  by (simp add: fetch_three_point_data_total[OF assms])

lemma get_player_list_events:
  "fst (get_player_list w season) =
     Print (Fetching_player_list season) # CommonAllPlayers_request season #
       (case snd (get_player_list w season) of Inl e \<Rightarrow> []
        | Inr ps \<Rightarrow> [Print (Found_players (length ps))])"
  by (auto simp: get_player_list_def list_get_def Let_def split: sum.splits)



lemma filter_concat_map: "filter P (concat (map f xs)) = concat (map (\<lambda>x. filter P (f x)) xs)"
  by (induction xs) auto

lemma concat_map_singleton: "concat (map (\<lambda>x. [g x]) xs) = map g xs"
  by (induction xs) auto

lemma fetch_three_point_data_no_write:
  "filter is_write (fst (fetch_three_point_data w season d)) = []"
proof (cases "snd (get_player_list w season)")
  case (Inl e)
  then show ?thesis
    by (simp add: fetch_three_point_data_failed get_player_list_events)
next
  case (Inr ps)
  then obtain ev where g: "get_player_list w season = (ev, Inr ps)"
    by (cases "get_player_list w season") simp
  have e: "filter is_write ev = []"
    using get_player_list_events[of w season] g by simp
  obtain ev' looped where l: "fetch_loop w season d ps [] = (ev', looped)"
    by (cases "fetch_loop w season d ps []")
  have e': "filter is_write ev' = []"
    using fetch_loop_no_write[of w season d ps "[]"] l by simp
  show ?thesis
    using e e' by (auto simp: fetch_three_point_data_def g l Let_def split: sum.splits)
qed



lemma parse_arguments_accept:
  assumes "validate_season_format s = Inr s'"
  shows "parse_arguments (Some s) = ([], Inr s)"
  using assms validate_accepts_unchanged[OF assms] by (simp add: parse_arguments_def)

lemma parse_arguments_reject:
  assumes "validate_season_format s = Inl e"
  shows "\<exists>m. e = ArgumentTypeError m \<and> parse_arguments (Some s) = ([Print (Usage_error m)], Inl (SystemExit 2))"
  using assms validate_rejects_with_usage_error[OF assms] by (auto simp: parse_arguments_def)

lemma parse_arguments_Inr_events:
  assumes "parse_arguments arg = (ev0, Inr season)"
  shows "ev0 = []"
  using assms by (auto simp: parse_arguments_def Let_def split: sum.splits exn.splits)

lemma save_to_parquet_events:
  "set (fst (save_to_parquet w df p)) \<subseteq> {Mkdir (parent p), To_parquet p df, Print (Data_saved p)}"
  by (auto simp: save_to_parquet_def split: option.splits)


text \<open>The trace of an accepted run: banner, collection, then the writer or the no-data message.\<close>

lemma main_accepted:
  assumes "parse_arguments arg = (ev0, Inr season)"
  shows "main w arg =
     (let fetched = fetch_three_point_data w season default_rate_limit_seconds;
          before = Print (Season_banner season) # fst fetched
      in case snd fetched of
           Inl e \<Rightarrow> (before, Uncaught e)
         | Inr df \<Rightarrow>
             if df = [] then (before @ [Print No_data_to_save], Returned)
             else (let saved = save_to_parquet w df (output_path_for w season)
                   in (before @ fst saved @
                        (case snd saved of Inl e \<Rightarrow> []
                         | Inr u \<Rightarrow> [Print (Pipeline_complete (length df) (output_path_for w season))]),
                       case snd saved of Inl e \<Rightarrow> Uncaught e | Inr u \<Rightarrow> Returned)))"
  using parse_arguments_Inr_events[OF assms] assms
  by (auto simp: main_def Let_def split: prod.splits sum.splits)


lemma main_rejected:
  assumes "validate_season_format s = Inl e"
  shows "\<exists>m. e = ArgumentTypeError m \<and> main w (Some s) = ([Print (Usage_error m)], SystemExit 2)"
  using parse_arguments_reject[OF assms] by (auto simp: main_def)

lemma default_rate_limit_nonneg: "0 \<le> default_rate_limit_seconds"
  by (simp add: default_rate_limit_seconds_def)

lemma get_player_shots_network:
  "filter is_network (fst (get_player_shots w pid pname season)) = [ShotChartDetail_request pid season]"
  by (auto simp: get_player_shots_events split: sum.splits)

lemma fetch_three_point_data_network:
  assumes "snd (get_player_list w season) = Inr ps"
    and "0 \<le> d"
    and "\<forall>p \<in> set ps. filterable (api_table w (player_id p) season)"
  shows "filter is_network (fst (fetch_three_point_data w season d)) =
           CommonAllPlayers_request season # map (\<lambda>p. ShotChartDetail_request (player_id p) season) ps"
  using assms(1)
  by (simp add: fetch_three_point_data_total[OF assms] get_player_list_events filter_concat_map
        get_player_shots_network concat_map_singleton)

lemma rejected_season_exits_before_network:
  assumes "validate_season_format s = Inl e"
  shows "snd (main w (Some s)) = SystemExit 2
         \<and> filter is_network (fst (main w (Some s))) = []
         \<and> filter is_write (fst (main w (Some s))) = []
         \<and> fst (main w (Some s)) = (case e of ArgumentTypeError m \<Rightarrow> [Print (Usage_error m)] | _ \<Rightarrow> [])"
  using main_rejected[OF assms, of w] by auto

section \<open>The sample collaborators evaluated\<close>

lemma roster_AB_players:
  "snd (get_player_list world_B_fails s) = Inr [player_A, player_B]"
  "snd (get_player_list world_A_none s) = Inr [player_A, player_B]"
  "snd (get_player_list world_both s) = Inr [player_A, player_B]"
  "snd (get_player_list world_no_threes s) = Inr [player_A, player_B]"
  "snd (get_player_list world_no_column s) = Inr [player_A, player_B]"
  by (simp_all add: get_player_list_def list_get_def roster_AB_def player_A_def player_B_def
        world_B_fails_def world_A_none_def world_both_def world_no_threes_def world_no_column_def)

lemma sample_tables:
  "api_table world_B_fails 1 s = Table [two_row, three_row]"
  "api_table world_B_fails 2 s = empty_DataFrame"
  "api_table world_A_none 1 s = Table [two_row]"
  "api_table world_A_none 2 s = Table [three_row]"
  "api_table world_both i s = Table [three_row]"
  "api_table world_no_threes 1 s = Table [two_row]"
  "api_table world_no_threes 2 s = Table []"
  "api_table world_no_column 1 s = Table_without_SHOT_TYPE [[(''LOC_X'', ''231'')]]"
  "api_table world_no_column 2 s = Table [three_row]"
  by (simp_all add: api_table_def
        world_B_fails_def world_A_none_def world_both_def world_no_threes_def world_no_column_def)

lemma sample_filterable:
  "\<forall>p \<in> set [player_A, player_B]. filterable (api_table world_B_fails (player_id p) s)"
  "\<forall>p \<in> set [player_A, player_B]. filterable (api_table world_A_none (player_id p) s)"
  "\<forall>p \<in> set [player_A, player_B]. filterable (api_table world_both (player_id p) s)"
  "\<forall>p \<in> set [player_A, player_B]. filterable (api_table world_no_threes (player_id p) s)"
  by (simp_all add: sample_tables player_A_def player_B_def empty_DataFrame_def)

lemma sample_contributions:
  "player_three_pointers world_A_none s player_A = []"
  "player_three_pointers world_A_none s player_B = [three_row\<lparr>PLAYER_NAME := ''B''\<rparr>]"
  "player_three_pointers world_both s player_A = [three_row\<lparr>PLAYER_NAME := ''A''\<rparr>]"
  "player_three_pointers world_both s player_B = [three_row\<lparr>PLAYER_NAME := ''B''\<rparr>]"
  "player_three_pointers world_no_threes s player_A = []"
  "player_three_pointers world_no_threes s player_B = []"
  "player_three_pointers world_B_fails s player_A = [three_row\<lparr>PLAYER_NAME := ''A''\<rparr>]"
  "player_three_pointers world_B_fails s player_B = []"
  by (simp_all add: player_three_pointers_api sample_tables player_A_def player_B_def
        three_pointers_def two_row_def three_row_def empty_DataFrame_def)

lemma player_three_pointers_name:
  "r \<in> set (player_three_pointers w season p) \<Longrightarrow> PLAYER_NAME r = player_name p"
  by (auto simp: player_three_pointers_api)

lemma sample_fetch_results:
  "snd (fetch_three_point_data world_both s default_rate_limit_seconds) =
     Inr [three_row\<lparr>PLAYER_NAME := ''A''\<rparr>, three_row\<lparr>PLAYER_NAME := ''B''\<rparr>]"
  "snd (fetch_three_point_data world_no_threes s default_rate_limit_seconds) = Inr []"
  using fetch_three_point_data_result[OF roster_AB_players(3) default_rate_limit_nonneg
          sample_filterable(3), of s]
        fetch_three_point_data_result[OF roster_AB_players(4) default_rate_limit_nonneg
          sample_filterable(4), of s]
  by (simp_all add: sample_contributions)

section \<open>The output path and the assigned player name\<close>

lemma season_shape_parts:
  assumes "season_shape t"
  shows "CHR ''-'' \<notin> set (take 4 t)" "CHR ''-'' \<notin> set (drop 5 t)"
        "t = take 4 t @ CHR ''-'' # drop 5 t"
  using assms unfolding season_shape_cases
  by (auto dest: is_digit_not_hyphen)

lemma validated_season_parts:
  assumes "validate_season_format season = Inr season'"
  shows "season = take 4 season @ CHR ''-'' # drop 5 season
         \<and> CHR ''-'' \<notin> set (take 4 season) \<and> CHR ''-'' \<notin> set (drop 5 season)
         \<and> list_all is_digit (take 4 season) \<and> length (take 4 season) = 4"
proof -
  from validate_accepts_unchanged[OF assms]
  obtain t where t: "season_shape t" and c: "season = t \<or> season = t @ [newline]"
    by blast
  from t obtain a b c' d e f where tt: "t = [a, b, c', d, CHR ''-'', e, f]"
    and dg: "is_digit a" "is_digit b" "is_digit c'" "is_digit d" "is_digit e" "is_digit f"
    unfolding season_shape_cases by blast
  have nl: "newline \<noteq> CHR ''-''" by (simp add: newline_def)
  from c show ?thesis
    using dg nl by (auto simp: tt dest: is_digit_not_hyphen)
qed

lemma py_replace_append: "py_replace a b (xs @ ys) = py_replace a b xs @ py_replace a b ys"
  by (simp add: py_replace_def)

lemma py_replace_absent: "a \<notin> set xs \<Longrightarrow> py_replace a b xs = xs"
  by (induction xs) (auto simp: py_replace_def)

lemma py_replace_Cons:
  "py_replace a b (c # cs) = (if c = a then b else c) # py_replace a b cs"
  by (simp add: py_replace_def)

lemma py_replace_season:
  assumes "validate_season_format season = Inr season'"
  shows "py_replace CHR ''-'' CHR ''_'' season = take 4 season @ CHR ''_'' # drop 5 season"
proof -
  define y where "y = take 4 season"
  define e where "e = drop 5 season"
  from validated_season_parts[OF assms]
  have s: "season = y @ CHR ''-'' # e" and ny: "CHR ''-'' \<notin> set y" and ne: "CHR ''-'' \<notin> set e"
    unfolding y_def e_def by blast+
  have "py_replace CHR ''-'' CHR ''_'' (y @ CHR ''-'' # e) = y @ CHR ''_'' # e"
    using ny ne by (simp add: py_replace_append py_replace_Cons py_replace_absent)
  then have "py_replace CHR ''-'' CHR ''_'' season = y @ CHR ''_'' # e"
    using s by simp
  then show ?thesis
    unfolding y_def e_def .
qed

lemma main_to_parquet_path:
  assumes "parse_arguments arg = (ev0, Inr season)"
    and "To_parquet p df \<in> set (fst (main w arg))"
  shows "p = output_path_for w season"
proof -
  have nw: "To_parquet p df \<notin> set (fst (fetch_three_point_data w season d))" for d
  proof
    assume "To_parquet p df \<in> set (fst (fetch_three_point_data w season d))"
    then have "To_parquet p df \<in> set (filter is_write (fst (fetch_three_point_data w season d)))"
      by simp
    then show False by (simp add: fetch_three_point_data_no_write)
  qed
  have sv: "To_parquet p df \<in> set (fst (save_to_parquet w df' q)) \<Longrightarrow> p = q" for df' q
    using save_to_parquet_events[of w df' q] by auto
  show ?thesis
    using assms(2) nw sv
    by (auto simp: main_accepted[OF assms(1)] Let_def split: sum.splits if_splits)
qed

lemma map_of_set_column: "map_of (set_column k v r) k = Some v"
  by (induction r) auto

lemma raw_rows_set_player_name:
  "r \<in> set (raw_rows (set_player_name n t)) \<Longrightarrow> map_of r ''PLAYER_NAME'' = Some n"
  by (cases t) (auto simp: map_of_set_column)

section \<open>The claims\<close>

text \<open>
  C1. For strings of the shape four digits, hyphen, two digits the validator accepts
  exactly when the suffix equals the prefix modulo 100 plus one (\<open>validate_shape\<close>), and
  a string the pattern does not match is rejected (\<open>validate_no_match\<close>). But the
  pattern's \<open>$\<close> also matches before a final newline and \<open>int()\<close> strips it: the
  eight-character string \<open>2024-25\n\<close>, which is not of that shape, is accepted and
  returned.
\<close>

theorem validate_season_format_trailing_newline:
  "\<not> season_shape (''2024-25'' @ [newline])
   \<and> validate_season_format (''2024-25'' @ [newline]) = Inr (''2024-25'' @ [newline])"
  by (simp add: season_shape_def) code_simp

text \<open>
  C2. The wrap-around season \<open>2099-00\<close> is not accepted: the expected suffix is computed
  as \<open>2099 mod 100 + 1 = 100\<close>, which the two-digit suffix \<open>00\<close>, read as 0, does not
  equal, so the validator raises the "years must be consecutive" error.
\<close>

theorem validate_season_format_2099_00:
  "validate_season_format ''2099-00'' = Inl (ArgumentTypeError (Invalid_season ''2099-00''))"
  by code_simp

text \<open>
  C3. When the per-player fetch fails (the request raises, or its answer holds no data
  frame), the Shot Fetcher returns the empty table \<open>pd.DataFrame()\<close>; with a
  non-negative delay the loop then ends as it does without the failed player; and when
  the filter can be applied to the other players' tables, the collection returns a
  table, the concatenation of the three-point rows of the other players: the failed
  player contributes no row.
\<close>

theorem fetch_failure_isolated:
  assumes "snd (get_player_list w season) = Inr (ps @ p # qs)"
    and "fetch_fails w (player_id p) season"
    and "0 \<le> d"
  shows "snd (get_player_shots w (player_id p) (player_name p) season) = empty_DataFrame
         \<and> snd (fetch_loop w season d (ps @ p # qs) []) = snd (fetch_loop w season d (ps @ qs) [])
         \<and> ((\<forall>q \<in> set (ps @ qs). filterable (api_table w (player_id q) season)) \<longrightarrow>
              snd (fetch_three_point_data w season d) =
                Inr (concat (map (player_three_pointers w season) (ps @ qs))))"
proof -
  have e: "snd (get_player_shots w (player_id p) (player_name p) season) = empty_DataFrame"
    by (rule fetch_fails_empty[OF assms(2)])
  then have te: "table_empty (snd (get_player_shots w (player_id p) (player_name p) season))"
    by (simp add: table_empty_empty_DataFrame)
  have s: "snd (fetch_loop w season d (ps @ p # qs) []) = snd (fetch_loop w season d (ps @ qs) [])"
    by (rule fetch_loop_skip[OF assms(3) te])
  have t: "api_table w (player_id p) season = empty_DataFrame"
    using assms(2) by (auto simp: fetch_fails_def api_table_def split: sum.splits)
  have n: "player_three_pointers w season p = []"
    by (simp add: player_three_pointers_def e shot_rows_empty_DataFrame three_pointers_def)
  have r: "snd (fetch_three_point_data w season d) =
                Inr (concat (map (player_three_pointers w season) (ps @ qs)))"
    if o: "\<forall>q \<in> set (ps @ qs). filterable (api_table w (player_id q) season)"
  proof -
    have "\<forall>q \<in> set (ps @ p # qs). filterable (api_table w (player_id q) season)"
      using o t by (auto simp: filterable_empty_DataFrame)
    from fetch_three_point_data_result[OF assms(1) assms(3) this] n show ?thesis
      by simp
  qed
  from e s r show ?thesis by blast
qed

text \<open>The statement above at a concrete run.\<close>

theorem fetch_failure_isolated_witness:
  "snd (get_player_list world_B_fails ''2023-24'') = Inr ([player_A] @ player_B # [])
   \<and> fetch_fails world_B_fails (player_id player_B) ''2023-24''
   \<and> (0::rat) \<le> 6 / 10
   \<and> filterable (api_table world_B_fails (player_id player_A) ''2023-24'')
   \<and> snd (get_player_shots world_B_fails (player_id player_B) (player_name player_B) ''2023-24'')
       = empty_DataFrame
   \<and> snd (fetch_three_point_data world_B_fails ''2023-24'' (6 / 10)) =
        Inr [three_row\<lparr>PLAYER_NAME := ''A''\<rparr>]"
proof -
  have h1: "snd (get_player_list world_B_fails ''2023-24'') = Inr ([player_A] @ player_B # [])"
    by (simp add: roster_AB_players)
  have h2: "fetch_fails world_B_fails (player_id player_B) ''2023-24''"
    by (simp add: fetch_fails_def world_B_fails_def player_B_def)
  have h3: "(0::rat) \<le> 6 / 10"
    by simp
  have h4: "filterable (api_table world_B_fails (player_id player_A) ''2023-24'')"
    by (simp add: sample_tables player_A_def)
  note inst = fetch_failure_isolated[OF h1 h2 h3]
  have 5: "snd (get_player_shots world_B_fails (player_id player_B) (player_name player_B) ''2023-24'')
       = empty_DataFrame"
    by (rule inst[THEN conjunct1])
  have 6: "snd (fetch_three_point_data world_B_fails ''2023-24'' (6 / 10)) =
        Inr [three_row\<lparr>PLAYER_NAME := ''A''\<rparr>]"
    using inst[THEN conjunct2, THEN conjunct2] h4 by (simp add: sample_contributions)
  show ?thesis
    by (intro conjI h1 h2 h3 h4 5 6)
qed

text \<open>
  C4. The filter keeps a record exactly when its shot type equals the string
  \<open>3PT Field Goal\<close>: a record is in the filtered table iff it is in the table and has
  that shot type, and a record is in the aggregated table iff it is in the table
  fetched for some enumerated player and has that shot type. Records whose shot type
  is \<open>2PT Field Goal\<close>, differs in case, is the substring \<open>3PT\<close> or extends the marker
  are in neither.
\<close>

theorem filter_exact_match:
  assumes "snd (get_player_list w season) = Inr ps"
    and "snd (fetch_three_point_data w season d) = Inr aggregated"
  shows "(r \<in> set (three_pointers df) \<longleftrightarrow> r \<in> set df \<and> SHOT_TYPE r = ''3PT Field Goal'')
         \<and> (r \<in> set aggregated \<longleftrightarrow>
              (\<exists>p \<in> set ps.
                  r \<in> set (shot_rows (snd (get_player_shots w (player_id p) (player_name p) season)))
                  \<and> SHOT_TYPE r = ''3PT Field Goal''))
         \<and> (SHOT_TYPE r \<in> {''2PT Field Goal'', ''3pt field goal'', ''3PT FIELD GOAL'', ''3PT'',
                              ''3PT Field Goal Attempt''}
              \<longrightarrow> r \<notin> set (three_pointers df) \<and> r \<notin> set aggregated)"
proof -
  have a: "aggregated = concat (map (player_three_pointers w season) ps)"
    by (rule fetch_three_point_data_Inr[OF assms])
  have m: "\<And>x. x \<in> set aggregated \<longleftrightarrow>
              (\<exists>p \<in> set ps.
                  x \<in> set (shot_rows (snd (get_player_shots w (player_id p) (player_name p) season)))
                  \<and> SHOT_TYPE x = ''3PT Field Goal'')"
    unfolding a by (auto simp: player_three_pointers_def three_pointers_def)
  have f: "\<And>x. x \<in> set (three_pointers df) \<longleftrightarrow> x \<in> set df \<and> SHOT_TYPE x = ''3PT Field Goal''"
    by (auto simp: three_pointers_def)
  show ?thesis
    unfolding m f by auto
qed

text \<open>The statement above at a concrete run.\<close>

theorem filter_exact_match_witness:
  "snd (get_player_list world_B_fails ''2023-24'') = Inr [player_A, player_B]
   \<and> snd (fetch_three_point_data world_B_fails ''2023-24'' (6 / 10)) = Inr [three_row\<lparr>PLAYER_NAME := ''A''\<rparr>]
   \<and> three_row \<in> set (three_pointers [two_row, three_row])
   \<and> two_row \<notin> set (three_pointers [two_row, three_row])
   \<and> two_row\<lparr>PLAYER_NAME := ''A''\<rparr> \<notin> set [three_row\<lparr>PLAYER_NAME := ''A''\<rparr>]"
proof -
  have h1: "snd (get_player_list world_B_fails ''2023-24'') = Inr [player_A, player_B]"
    by (simp add: roster_AB_players)
  have h2: "snd (fetch_three_point_data world_B_fails ''2023-24'' (6 / 10)) = Inr [three_row\<lparr>PLAYER_NAME := ''A''\<rparr>]"
    using fetch_three_point_data_result[OF h1 _ sample_filterable(1), of "6 / 10"]
    by (simp add: sample_contributions)
  have t3: "SHOT_TYPE three_row = ''3PT Field Goal''" by (simp add: three_row_def)
  have t2: "SHOT_TYPE two_row = ''2PT Field Goal''" by (simp add: two_row_def)
  show ?thesis
    using h1 h2 t2 t3
      filter_exact_match[OF h1 h2, of three_row "[two_row, three_row]"]
      filter_exact_match[OF h1 h2, of two_row "[two_row, three_row]"]
      filter_exact_match[OF h1 h2, of "two_row\<lparr>PLAYER_NAME := ''A''\<rparr>" "[]"]
    by simp
qed

text \<open>
  C5, as stated, fails: with players A, B where A has no three-point row and B has
  one, the two filtered results differ, yet the concatenation in reverse enumeration
  order is the aggregated table.
\<close>

theorem reverse_order_counterexample:
  "snd (get_player_list world_A_none ''2024-25'') = Inr [player_A, player_B]
   \<and> player_three_pointers world_A_none ''2024-25'' player_A
       \<noteq> player_three_pointers world_A_none ''2024-25'' player_B
   \<and> snd (fetch_three_point_data world_A_none ''2024-25'' (6 / 10)) =
       Inr (player_three_pointers world_A_none ''2024-25'' player_B
            @ player_three_pointers world_A_none ''2024-25'' player_A)"
proof -
  have h: "snd (get_player_list world_A_none ''2024-25'') = Inr [player_A, player_B]"
    by (simp add: roster_AB_players)
  show ?thesis
    using h fetch_three_point_data_result[OF h _ sample_filterable(2), of "6 / 10"]
    by (simp add: sample_contributions)
qed

text \<open>
  C5, amended. For a non-negative delay and tables the filter can be applied to, the
  aggregated table is the concatenation, in player-enumeration order, of each player's
  three-point rows in the order the endpoint returned them (each tagged with the
  player's name); and for two enumerated players with different names whose filtered
  results are both non-empty, the concatenation in reverse enumeration order is not
  the aggregated table.
\<close>

theorem aggregate_row_order:
  assumes "snd (get_player_list w season) = Inr ps"
    and "0 \<le> d"
    and "\<forall>p \<in> set ps. filterable (api_table w (player_id p) season)"
  shows "snd (fetch_three_point_data w season d) =
           Inr (concat (map (\<lambda>p. map (\<lambda>r. r\<lparr>PLAYER_NAME := player_name p\<rparr>)
                                      (three_pointers (shot_rows (api_table w (player_id p) season))))
                            ps))
         \<and> (\<forall>a b. ps = [a, b] \<and> player_name a \<noteq> player_name b
                  \<and> player_three_pointers w season a \<noteq> []
                  \<and> player_three_pointers w season b \<noteq> []
              \<longrightarrow> snd (fetch_three_point_data w season d)
                    \<noteq> Inr (player_three_pointers w season b @ player_three_pointers w season a))"
proof -
  have r: "snd (fetch_three_point_data w season d) =
             Inr (concat (map (player_three_pointers w season) ps))"
    by (rule fetch_three_point_data_result[OF assms])
  have first: "snd (fetch_three_point_data w season d) =
           Inr (concat (map (\<lambda>p. map (\<lambda>r. r\<lparr>PLAYER_NAME := player_name p\<rparr>)
                                      (three_pointers (shot_rows (api_table w (player_id p) season))))
                            ps))"
    unfolding r by (simp add: player_three_pointers_api[abs_def])
  have second: "snd (fetch_three_point_data w season d)
                  \<noteq> Inr (player_three_pointers w season b @ player_three_pointers w season a)"
    if ps: "ps = [a, b]" and n: "player_name a \<noteq> player_name b"
      and na: "player_three_pointers w season a \<noteq> []"
      and nb: "player_three_pointers w season b \<noteq> []" for a b
  proof
    assume "snd (fetch_three_point_data w season d)
              = Inr (player_three_pointers w season b @ player_three_pointers w season a)"
    with r ps have eq: "player_three_pointers w season a @ player_three_pointers w season b
                   = player_three_pointers w season b @ player_three_pointers w season a"
      by simp
    from na obtain x xs where xa: "player_three_pointers w season a = x # xs"
      by (cases "player_three_pointers w season a") auto
    from nb obtain y ys where yb: "player_three_pointers w season b = y # ys"
      by (cases "player_three_pointers w season b") auto
    from eq xa yb have "x = y" by simp
    moreover have "PLAYER_NAME x = player_name a"
      by (rule player_three_pointers_name[of x w season]) (simp add: xa)
    moreover have "PLAYER_NAME y = player_name b"
      by (rule player_three_pointers_name[of y w season]) (simp add: yb)
    ultimately show False using n by simp
  qed
  from first second show ?thesis by blast
qed

text \<open>The statement above at a concrete run.\<close>

theorem aggregate_row_order_witness:
  "snd (get_player_list world_both ''2024-25'') = Inr [player_A, player_B]
   \<and> (0::rat) \<le> 6 / 10
   \<and> filterable (api_table world_both (player_id player_A) ''2024-25'')
   \<and> filterable (api_table world_both (player_id player_B) ''2024-25'')
   \<and> snd (fetch_three_point_data world_both ''2024-25'' (6 / 10)) =
       Inr [three_row\<lparr>PLAYER_NAME := ''A''\<rparr>, three_row\<lparr>PLAYER_NAME := ''B''\<rparr>]
   \<and> snd (fetch_three_point_data world_both ''2024-25'' (6 / 10)) \<noteq>
       Inr (player_three_pointers world_both ''2024-25'' player_B
            @ player_three_pointers world_both ''2024-25'' player_A)"
proof -
  have h: "snd (get_player_list world_both ''2024-25'') = Inr [player_A, player_B]"
    by (simp add: roster_AB_players)
  have d: "(0::rat) \<le> 6 / 10"
    by simp
  have fa: "filterable (api_table world_both (player_id player_A) ''2024-25'')"
    and fb: "filterable (api_table world_both (player_id player_B) ''2024-25'')"
    by (simp_all add: sample_tables)
  have f: "\<forall>p \<in> set [player_A, player_B]. filterable (api_table world_both (player_id p) ''2024-25'')"
    using fa fb by simp
  have n: "player_name player_A \<noteq> player_name player_B"
    by (simp add: player_A_def player_B_def)
  have c: "player_three_pointers world_both ''2024-25'' player_A \<noteq> []"
          "player_three_pointers world_both ''2024-25'' player_B \<noteq> []"
    by (simp_all add: sample_contributions)
  note inst = aggregate_row_order[OF h d f]
  from inst have 1: "snd (fetch_three_point_data world_both ''2024-25'' (6 / 10)) =
       Inr [three_row\<lparr>PLAYER_NAME := ''A''\<rparr>, three_row\<lparr>PLAYER_NAME := ''B''\<rparr>]"
    by (simp add: sample_tables three_pointers_def three_row_def player_A_def player_B_def)
  from inst have "[player_A, player_B] = [player_A, player_B]
      \<and> player_name player_A \<noteq> player_name player_B
      \<and> player_three_pointers world_both ''2024-25'' player_A \<noteq> []
      \<and> player_three_pointers world_both ''2024-25'' player_B \<noteq> []
      \<longrightarrow> snd (fetch_three_point_data world_both ''2024-25'' (6 / 10)) \<noteq>
       Inr (player_three_pointers world_both ''2024-25'' player_B
            @ player_three_pointers world_both ''2024-25'' player_A)"
    by blast
  with n c have 2: "snd (fetch_three_point_data world_both ''2024-25'' (6 / 10)) \<noteq>
       Inr (player_three_pointers world_both ''2024-25'' player_B
            @ player_three_pointers world_both ''2024-25'' player_A)"
    by blast
  show ?thesis
    by (intro conjI h d fa fb 1 2)
qed

text \<open>
  C6. When the season is accepted and the aggregated table is empty, the driver
  returns normally, its trace holds no directory creation and no file write, and its
  last action is to print the no-data message.
\<close>

theorem empty_aggregate_skips_writer:
  assumes "parse_arguments arg = (ev0, Inr season)"
    and "snd (fetch_three_point_data w season default_rate_limit_seconds) = Inr []"
  shows "snd (main w arg) = Returned
         \<and> filter is_write (fst (main w arg)) = []
         \<and> last (fst (main w arg)) = Print No_data_to_save"
  using assms(2)
  by (simp add: main_accepted[OF assms(1)] Let_def fetch_three_point_data_no_write)

text \<open>The statement above at a concrete run.\<close>

theorem empty_aggregate_skips_writer_witness:
  "parse_arguments (Some ''2024-25'') = ([], Inr ''2024-25'')
   \<and> snd (fetch_three_point_data world_no_threes ''2024-25'' default_rate_limit_seconds) = Inr []
   \<and> snd (main world_no_threes (Some ''2024-25'')) = Returned
   \<and> filter is_write (fst (main world_no_threes (Some ''2024-25''))) = []
   \<and> last (fst (main world_no_threes (Some ''2024-25''))) = Print No_data_to_save"
proof -
  have v: "validate_season_format ''2024-25'' = Inr ''2024-25''"
    by code_simp
  have h1: "parse_arguments (Some ''2024-25'') = ([], Inr ''2024-25'')"
    by (rule parse_arguments_accept[OF v])
  have h2: "snd (fetch_three_point_data world_no_threes ''2024-25'' default_rate_limit_seconds) = Inr []"
    by (rule sample_fetch_results)
  show ?thesis
    using h1 h2 empty_aggregate_skips_writer[OF h1 h2] by simp
qed

text \<open>
  C7. For a season the validator accepts, with the script two levels below the project
  root: the season is its four-digit prefix, one hyphen and the rest, neither part
  holding a hyphen; the output path is \<open>data/raw/nba_3pt_<prefix>_<rest>.parquet\<close>
  under the project root, that is the season with its hyphen replaced by an underscore
  inside the fixed template; and every file the driver writes is written to that path.
\<close>

theorem output_path_derivation:
  assumes "validate_season_format season = Inr season'"
    and "script_file w = project_root @ [dir, file]"
  shows "season = take 4 season @ ''-'' @ drop 5 season
         \<and> CHR ''-'' \<notin> set (take 4 season) \<and> CHR ''-'' \<notin> set (drop 5 season)
         \<and> output_path_for w season =
             project_root @ [''data'', ''raw'',
                     ''nba_3pt_'' @ take 4 season @ ''_'' @ drop 5 season @ ''.parquet'']
         \<and> (\<forall>p df. To_parquet p df \<in> set (fst (main w (Some season)))
                \<longrightarrow> p = output_path_for w season)"
proof -
  note p = validated_season_parts[OF assms(1)]
  have r: "parent (parent (script_file w)) = project_root"
    by (simp add: assms(2) parent_def butlast_append)
  have o: "output_path_for w season =
             project_root @ [''data'', ''raw'',
                     ''nba_3pt_'' @ take 4 season @ ''_'' @ drop 5 season @ ''.parquet'']"
    by (simp add: output_path_for_def Let_def r py_replace_season[OF assms(1)])
  have m: "\<forall>p df. To_parquet p df \<in> set (fst (main w (Some season)))
                \<longrightarrow> p = output_path_for w season"
    using main_to_parquet_path[OF parse_arguments_accept[OF assms(1)]] by blast
  from p o m show ?thesis by simp
qed

text \<open>The statement above at a concrete run.\<close>

theorem output_path_derivation_witness:
  "validate_season_format ''2024-25'' = Inr ''2024-25''
   \<and> script_file world_both = [''home'', ''repo''] @ [''scripts'', ''fetch_data.py'']
   \<and> output_path_for world_both ''2024-25'' =
       [''home'', ''repo'', ''data'', ''raw'', ''nba_3pt_2024_25.parquet'']
   \<and> To_parquet [''home'', ''repo'', ''data'', ''raw'', ''nba_3pt_2024_25.parquet'']
        [three_row\<lparr>PLAYER_NAME := ''A''\<rparr>, three_row\<lparr>PLAYER_NAME := ''B''\<rparr>]
      \<in> set (fst (main world_both (Some ''2024-25'')))"
proof -
  have h1: "validate_season_format ''2024-25'' = Inr ''2024-25''"
    by code_simp
  have h2: "script_file world_both = [''home'', ''repo''] @ [''scripts'', ''fetch_data.py'']"
    by (simp add: world_both_def)
  note inst = output_path_derivation[OF h1 h2]
  from inst have o: "output_path_for world_both ''2024-25'' =
       [''home'', ''repo'', ''data'', ''raw'', ''nba_3pt_2024_25.parquet'']"
    by simp
  have f: "snd (fetch_three_point_data world_both ''2024-25'' default_rate_limit_seconds) =
             Inr [three_row\<lparr>PLAYER_NAME := ''A''\<rparr>, three_row\<lparr>PLAYER_NAME := ''B''\<rparr>]"
    by (rule sample_fetch_results)
  have sv: "save_to_parquet world_both df q =
              ([Mkdir (parent q), To_parquet q df, Print (Data_saved q)], Inr ())" for df q
    by (simp add: save_to_parquet_def world_both_def)
  have w: "To_parquet [''home'', ''repo'', ''data'', ''raw'', ''nba_3pt_2024_25.parquet'']
        [three_row\<lparr>PLAYER_NAME := ''A''\<rparr>, three_row\<lparr>PLAYER_NAME := ''B''\<rparr>]
      \<in> set (fst (main world_both (Some ''2024-25'')))"
    by (simp add: main_accepted[OF parse_arguments_accept[OF h1]] Let_def f sv o)
  show ?thesis
    by (intro conjI h1 h2 o w)
qed




text \<open>
  C9. An argument the validator rejects makes the driver exit with status 2 before any
  request (\<open>rejected_season_exits_before_network\<close>). But the malformed argument
  \<open>2024-25\n\<close> is not rejected: the driver goes on to the roster request and the
  shot-chart requests, creates the directory and writes a file whose name holds the
  newline, and returns normally.
\<close>

theorem season_with_newline_reaches_network:
  "\<not> season_shape (''2024-25'' @ [newline])
   \<and> snd (main world_both (Some (''2024-25'' @ [newline]))) = Returned
   \<and> filter is_network (fst (main world_both (Some (''2024-25'' @ [newline])))) =
       [CommonAllPlayers_request (''2024-25'' @ [newline]),
        ShotChartDetail_request 1 (''2024-25'' @ [newline]),
        ShotChartDetail_request 2 (''2024-25'' @ [newline])]
   \<and> filter is_write (fst (main world_both (Some (''2024-25'' @ [newline])))) =
       [Mkdir [''home'', ''repo'', ''data'', ''raw''],
        To_parquet [''home'', ''repo'', ''data'', ''raw'', ''nba_3pt_2024_25'' @ [newline] @ ''.parquet'']
          [three_row\<lparr>PLAYER_NAME := ''A''\<rparr>, three_row\<lparr>PLAYER_NAME := ''B''\<rparr>]]"
proof -
  define s where "s = ''2024-25'' @ [newline]"
  have 1: "\<not> season_shape s"
    by (simp add: s_def season_shape_def)
  have v: "validate_season_format s = Inr s"
    unfolding s_def by code_simp
  have a: "parse_arguments (Some s) = ([], Inr s)"
    by (rule parse_arguments_accept[OF v])
  have f: "snd (fetch_three_point_data world_both s default_rate_limit_seconds) =
             Inr [three_row\<lparr>PLAYER_NAME := ''A''\<rparr>, three_row\<lparr>PLAYER_NAME := ''B''\<rparr>]"
    by (rule sample_fetch_results)
  have n: "filter is_network (fst (fetch_three_point_data world_both s default_rate_limit_seconds)) =
             [CommonAllPlayers_request s, ShotChartDetail_request 1 s, ShotChartDetail_request 2 s]"
    using fetch_three_point_data_network[OF roster_AB_players(3) default_rate_limit_nonneg
            sample_filterable(3), of s]
    by (simp add: player_A_def player_B_def)
  have o: "output_path_for world_both s =
             [''home'', ''repo'', ''data'', ''raw'', ''nba_3pt_2024_25'' @ [newline] @ ''.parquet'']"
    by (simp add: s_def output_path_for_def world_both_def parent_def py_replace_def newline_def)
  have po: "parent (output_path_for world_both s) = [''home'', ''repo'', ''data'', ''raw'']"
    by (simp add: o parent_def)
  have sv: "save_to_parquet world_both df q =
              ([Mkdir (parent q), To_parquet q df, Print (Data_saved q)], Inr ())" for df q
    by (simp add: save_to_parquet_def world_both_def)
  have m: "main world_both (Some s) =
             (Print (Season_banner s)
                # fst (fetch_three_point_data world_both s default_rate_limit_seconds)
                @ [Mkdir (parent (output_path_for world_both s)),
                   To_parquet (output_path_for world_both s)
                     [three_row\<lparr>PLAYER_NAME := ''A''\<rparr>, three_row\<lparr>PLAYER_NAME := ''B''\<rparr>],
                   Print (Data_saved (output_path_for world_both s)),
                   Print (Pipeline_complete 2 (output_path_for world_both s))],
              Returned)"
    by (simp add: main_accepted[OF a] Let_def f sv)
  have 2: "snd (main world_both (Some s)) = Returned"
    by (simp add: m)
  have 3: "filter is_network (fst (main world_both (Some s))) =
       [CommonAllPlayers_request s, ShotChartDetail_request 1 s, ShotChartDetail_request 2 s]"
    by (simp add: m n)
  have 4: "filter is_write (fst (main world_both (Some s))) =
       [Mkdir [''home'', ''repo'', ''data'', ''raw''],
        To_parquet [''home'', ''repo'', ''data'', ''raw'', ''nba_3pt_2024_25'' @ [newline] @ ''.parquet'']
          [three_row\<lparr>PLAYER_NAME := ''A''\<rparr>, three_row\<lparr>PLAYER_NAME := ''B''\<rparr>]]"
  proof -
    have "filter is_write (fst (main world_both (Some s))) =
            [Mkdir (parent (output_path_for world_both s)),
             To_parquet (output_path_for world_both s)
               [three_row\<lparr>PLAYER_NAME := ''A''\<rparr>, three_row\<lparr>PLAYER_NAME := ''B''\<rparr>]]"
      by (simp add: m fetch_three_point_data_no_write)
    then have "filter is_write (fst (main world_both (Some s))) =
            [Mkdir [''home'', ''repo'', ''data'', ''raw''],
             To_parquet (output_path_for world_both s)
               [three_row\<lparr>PLAYER_NAME := ''A''\<rparr>, three_row\<lparr>PLAYER_NAME := ''B''\<rparr>]]"
      by (simp only: po)
    then show ?thesis
      by (simp only: o)
  qed
  show ?thesis
    unfolding s_def[symmetric]
    by (intro conjI 1 2 3 4)
qed

text \<open>
  C10. The table the Shot Fetcher returns is the endpoint's table with \<open>PLAYER_NAME\<close>
  set to the supplied name in every row, whatever the endpoint had put there; so every
  row of a returned table carries the supplied name, also in a non-empty table without
  the \<open>SHOT_TYPE\<close> column, and every row of the aggregated table carries the name of an
  enumerated player in whose fetched table it is.
\<close>

theorem player_name_assigned:
  assumes "snd (get_player_list w season) = Inr ps"
    and "snd (fetch_three_point_data w season d) = Inr aggregated"
  shows "shot_rows (snd (get_player_shots w pid pname season)) =
           map (\<lambda>r. r\<lparr>PLAYER_NAME := pname\<rparr>) (shot_rows (api_table w pid season))
         \<and> (\<forall>r \<in> set (shot_rows (snd (get_player_shots w pid pname season))). PLAYER_NAME r = pname)
         \<and> (\<not> table_empty (snd (get_player_shots w pid pname season)) \<longrightarrow>
              (\<forall>r \<in> set (raw_rows (snd (get_player_shots w pid pname season))).
                  map_of r ''PLAYER_NAME'' = Some pname))
         \<and> (\<forall>r \<in> set aggregated. \<exists>p \<in> set ps. PLAYER_NAME r = player_name p
               \<and> r \<in> set (shot_rows (snd (get_player_shots w (player_id p) (player_name p) season))))"
proof -
  have a: "aggregated = concat (map (player_three_pointers w season) ps)"
    by (rule fetch_three_point_data_Inr[OF assms])
  have 1: "shot_rows (snd (get_player_shots w pid pname season)) =
           map (\<lambda>r. r\<lparr>PLAYER_NAME := pname\<rparr>) (shot_rows (api_table w pid season))"
    by (rule get_player_shots_rows)
  have 2: "\<forall>r \<in> set (shot_rows (snd (get_player_shots w pid pname season))). PLAYER_NAME r = pname"
    unfolding 1 by auto
  have 3: "\<not> table_empty (snd (get_player_shots w pid pname season)) \<longrightarrow>
              (\<forall>r \<in> set (raw_rows (snd (get_player_shots w pid pname season))).
                  map_of r ''PLAYER_NAME'' = Some pname)"
    by (auto simp: get_player_shots_table raw_rows_set_player_name split: if_splits)
  have 4: "\<forall>r \<in> set aggregated. \<exists>p \<in> set ps. PLAYER_NAME r = player_name p
               \<and> r \<in> set (shot_rows (snd (get_player_shots w (player_id p) (player_name p) season)))"
  proof
    fix r assume "r \<in> set aggregated"
    then obtain p where p: "p \<in> set ps" and r: "r \<in> set (player_three_pointers w season p)"
      unfolding a by auto
    from r have "PLAYER_NAME r = player_name p"
      by (rule player_three_pointers_name)
    moreover from r
    have "r \<in> set (shot_rows (snd (get_player_shots w (player_id p) (player_name p) season)))"
      by (simp add: player_three_pointers_def three_pointers_def)
    ultimately show "\<exists>p \<in> set ps. PLAYER_NAME r = player_name p
               \<and> r \<in> set (shot_rows (snd (get_player_shots w (player_id p) (player_name p) season)))"
      using p by blast
  qed
  show ?thesis
    by (intro conjI 1 2 3 4)
qed

text \<open>The statement above at a concrete run.\<close>

theorem player_name_assigned_witness:
  "snd (get_player_list world_both ''2024-25'') = Inr [player_A, player_B]
   \<and> snd (fetch_three_point_data world_both ''2024-25'' (6 / 10)) =
       Inr [three_row\<lparr>PLAYER_NAME := ''A''\<rparr>, three_row\<lparr>PLAYER_NAME := ''B''\<rparr>]
   \<and> PLAYER_NAME three_row = ''from api''
   \<and> shot_rows (snd (get_player_shots world_both 1 ''A'' ''2024-25'')) = [three_row\<lparr>PLAYER_NAME := ''A''\<rparr>]
   \<and> list_all (\<lambda>r. PLAYER_NAME r = ''A'') (shot_rows (snd (get_player_shots world_both 1 ''A'' ''2024-25'')))
   \<and> list_all (\<lambda>r. list_ex (\<lambda>p. PLAYER_NAME r = player_name p) [player_A, player_B])
         [three_row\<lparr>PLAYER_NAME := ''A''\<rparr>, three_row\<lparr>PLAYER_NAME := ''B''\<rparr>]"
proof -
  have h1: "snd (get_player_list world_both ''2024-25'') = Inr [player_A, player_B]"
    by (simp add: roster_AB_players)
  have h2: "snd (fetch_three_point_data world_both ''2024-25'' (6 / 10)) =
       Inr [three_row\<lparr>PLAYER_NAME := ''A''\<rparr>, three_row\<lparr>PLAYER_NAME := ''B''\<rparr>]"
    using sample_fetch_results(1)[of "''2024-25''"] by (simp add: default_rate_limit_seconds_def)
  note inst = player_name_assigned[OF h1 h2, of 1 "''A''"]
  have 3: "shot_rows (snd (get_player_shots world_both 1 ''A'' ''2024-25'')) = [three_row\<lparr>PLAYER_NAME := ''A''\<rparr>]"
    using inst[THEN conjunct1] by (simp add: sample_tables)
  have 4: "list_all (\<lambda>r. PLAYER_NAME r = ''A'') (shot_rows (snd (get_player_shots world_both 1 ''A'' ''2024-25'')))"
    using inst[THEN conjunct2, THEN conjunct1] by (simp only: list_all_iff)
  have 5: "list_all (\<lambda>r. list_ex (\<lambda>p. PLAYER_NAME r = player_name p) [player_A, player_B])
         [three_row\<lparr>PLAYER_NAME := ''A''\<rparr>, three_row\<lparr>PLAYER_NAME := ''B''\<rparr>]"
    unfolding list_all_iff list_ex_iff
    using inst[THEN conjunct2, THEN conjunct2, THEN conjunct2] by fast
  have 6: "PLAYER_NAME three_row = ''from api''" by (simp add: three_row_def)
  show ?thesis
    by (intro conjI h1 h2 6 3 4 5)
qed

end
